theory Spec2Isabelle
  imports Complex_Main "HOL-Library.Multiset"
begin

section \<open>Values of the Go runtime that the program stores\<close>

text \<open>
  A \<open>float64\<close> is only stored, compared with zero and serialized by the code verified
  here. It is kept by its value: a finite number, one of the two infinities, or NaN
  (negative zero is the finite value 0, as Go's \<open>==\<close> has it). Rounding is not modelled.
\<close>

datatype float64 = Finite rat | PosInf | NegInf | NaN

text \<open>
  A \<open>time.Time\<close> is kept by its instant, in nanoseconds since January 1, year 1,
  00:00:00 UTC (the instant of the zero value of the type), and by the offset of its
  zone at that instant, in seconds east of UTC. The name of the zone and the monotonic
  reading are not modelled. \<open>IsZero\<close> looks at the instant only.
\<close>

record Time =
  instant :: int
  zone_offset :: int

definition zero_Time :: Time where
  "zero_Time = \<lparr>instant = 0, zone_offset = 0\<rparr>"

definition IsZero :: "Time \<Rightarrow> bool" where
  "IsZero t \<longleftrightarrow> instant t = 0"

definition unixToInternal :: int where
  "unixToInternal = 62135596800"

definition nanosPerDay :: int where
  "nanosPerDay = 86400 * 1000000000"

text \<open>Go's \<open>/\<close> on integers, which truncates toward zero, for a positive divisor.\<close>

definition quot :: "int \<Rightarrow> int \<Rightarrow> int" where
  "quot a b = (if a < 0 then - ((- a) div b) else a div b)"

section \<open>utils: the result records\<close>

record HTTPTest =
  HTTP_URL :: string
  HTTP_Status :: string
  HTTP_Proto :: string
  HTTP_TLSVersion :: string
  HTTP_CipherSuite :: string
  HTTP_ServerName :: string
  HTTP_ResponseLength :: int
  HTTP_Error :: string

record SpeedTest =
  Speed_URL :: string
  Speed_DownloadMbps :: float64
  Speed_ElapsedTime :: int
  Speed_BytesReceived :: int
  Speed_Error :: string

record VPNTest =
  VPN_Status :: string
  VPN_Error :: string

record PingTest =
  Ping_URL :: string
  Ping_Transmitted :: int
  Ping_Received :: int
  Ping_Loss :: float64
  Ping_Error :: string

record TestResults =
  HTTPTests :: "HTTPTest list"
  SpeedTests :: "SpeedTest list"
  VPNTest :: VPNTest
  PingTest :: PingTest
  Timestamp :: Time

text \<open>
  A slice is kept by the sequence of its elements: a nil slice and an empty one are the
  same list, as they are to \<open>len\<close>, \<open>append\<close> and \<open>range\<close>, all that the code applies
  to them. The zero values Go gives to a struct that is declared and not initialised:
\<close>

definition zero_HTTPTest :: HTTPTest where
  "zero_HTTPTest = \<lparr>HTTP_URL = [], HTTP_Status = [], HTTP_Proto = [], HTTP_TLSVersion = [],
     HTTP_CipherSuite = [], HTTP_ServerName = [], HTTP_ResponseLength = 0, HTTP_Error = []\<rparr>"

definition zero_SpeedTest :: SpeedTest where
  "zero_SpeedTest = \<lparr>Speed_URL = [], Speed_DownloadMbps = Finite 0, Speed_ElapsedTime = 0,
     Speed_BytesReceived = 0, Speed_Error = []\<rparr>"

definition zero_VPNTest :: VPNTest where
  "zero_VPNTest = \<lparr>VPN_Status = [], VPN_Error = []\<rparr>"

definition zero_PingTest :: PingTest where
  "zero_PingTest = \<lparr>Ping_URL = [], Ping_Transmitted = 0, Ping_Received = 0,
     Ping_Loss = Finite 0, Ping_Error = []\<rparr>"

definition zero_TestResults :: TestResults where
  "zero_TestResults = \<lparr>HTTPTests = [], SpeedTests = [], VPNTest = zero_VPNTest,
     PingTest = zero_PingTest, Timestamp = zero_Time\<rparr>"

section \<open>utils: the error types\<close>

record TestError =
  TestType :: string
  Message :: string
  Err :: "string option"

datatype error =
  NetworkError TestError
  | TimeoutError TestError
  | ValidationError TestError
  | ParseError TestError

definition NewTestError :: "string \<Rightarrow> string \<Rightarrow> string option \<Rightarrow> TestError" where
  "NewTestError testType message err = \<lparr>TestType = testType, Message = message, Err = err\<rparr>"

definition NewNetworkError :: "string \<Rightarrow> string \<Rightarrow> string option \<Rightarrow> error" where
  "NewNetworkError testType message err = NetworkError (NewTestError testType message err)"

definition NewTimeoutError :: "string \<Rightarrow> string \<Rightarrow> error" where
  "NewTimeoutError testType message = TimeoutError (NewTestError testType message None)"

definition NewValidationError :: "string \<Rightarrow> string \<Rightarrow> error" where
  "NewValidationError testType message = ValidationError (NewTestError testType message None)"

definition NewParseError :: "string \<Rightarrow> string \<Rightarrow> string option \<Rightarrow> error" where
  "NewParseError testType message err = ParseError (NewTestError testType message err)"

section \<open>encoding/json on the result records\<close>

subsection \<open>Strings: invalid UTF-8 is replaced\<close>

text \<open>
  A Go string is a byte sequence. The encoder writes every byte that does not start a
  valid UTF-8 encoding as the replacement character U+FFFD, so the text a reader gets back
  is the string with each such byte replaced by the three bytes EF BF BD.
  \<open>rune_len\<close> is the size that \<open>utf8.DecodeRuneInString\<close> reports for a valid encoding
  at the head of the string, and 0 where it reports an error.
\<close>

definition in_range :: "nat \<Rightarrow> nat \<Rightarrow> char \<Rightarrow> bool" where
  "in_range lo hi c \<longleftrightarrow> lo \<le> of_char c \<and> (of_char c :: nat) \<le> hi"

definition tail_byte :: "char \<Rightarrow> bool" where
  "tail_byte c \<longleftrightarrow> in_range 0x80 0xBF c"

definition len2 :: "string \<Rightarrow> nat" where
  "len2 cs = (case cs of c1 # _ \<Rightarrow> if tail_byte c1 then 2 else 0 | _ \<Rightarrow> 0)"

definition len3 :: "nat \<Rightarrow> nat \<Rightarrow> string \<Rightarrow> nat" where
  "len3 lo hi cs =
     (case cs of c1 # c2 # _ \<Rightarrow> if in_range lo hi c1 \<and> tail_byte c2 then 3 else 0 | _ \<Rightarrow> 0)"

definition len4 :: "nat \<Rightarrow> nat \<Rightarrow> string \<Rightarrow> nat" where
  "len4 lo hi cs =
     (case cs of c1 # c2 # c3 # _ \<Rightarrow>
        if in_range lo hi c1 \<and> tail_byte c2 \<and> tail_byte c3 then 4 else 0 | _ \<Rightarrow> 0)"

definition rune_len :: "string \<Rightarrow> nat" where
  "rune_len s =
     (case s of [] \<Rightarrow> 0
      | c # cs \<Rightarrow>
          (let b = (of_char c :: nat) in
           if b < 0x80 then 1
           else if b < 0xC2 then 0
           else if b < 0xE0 then len2 cs
           else if b = 0xE0 then len3 0xA0 0xBF cs
           else if b = 0xED then len3 0x80 0x9F cs
           else if b < 0xF0 then len3 0x80 0xBF cs
           else if b = 0xF0 then len4 0x90 0xBF cs
           else if b < 0xF4 then len4 0x80 0xBF cs
           else if b = 0xF4 then len4 0x80 0x8F cs
           else 0))"

definition replacement :: string where
  "replacement = [char_of (0xEF :: nat), char_of (0xBF :: nat), char_of (0xBD :: nat)]"

text \<open>
  The first argument counts the bytes of the current rune that are still to be copied.
\<close>

fun coerce :: "nat \<Rightarrow> string \<Rightarrow> string" where
  "coerce k [] = []"
| "coerce (Suc k) (c # cs) = c # coerce k cs"
| "coerce 0 (c # cs) =
     (case rune_len (c # cs) of
        0 \<Rightarrow> replacement @ coerce 0 cs
      | Suc n \<Rightarrow> c # coerce n cs)"

definition toValidUTF8 :: "string \<Rightarrow> string" where
  "toValidUTF8 s = coerce 0 s"



subsection \<open>The documents\<close>

text \<open>
  The text layer of JSON (indentation, escapes, the spelling of numbers) is not modelled.
  A document is kept as what \<open>json.Unmarshal\<close> reads from it for the result records: for
  each key of the struct tags, whether the key is present, and the value it holds. A file
  whose text \<open>json.Unmarshal\<close> rejects is \<open>Unparsable\<close>, with the decoder's message.
\<close>

record HTTPTest_json =
  http_url :: "string option"
  http_status :: "string option"
  http_proto :: "string option"
  http_tls_version :: "string option"
  http_cipher_suite :: "string option"
  http_server_name :: "string option"
  http_response_length :: "int option"
  http_error :: "string option"

record SpeedTest_json =
  speed_url :: "string option"
  speed_download_mbps :: "rat option"
  speed_elapsed_time :: "int option"
  speed_bytes_received :: "int option"
  speed_error :: "string option"

record VPNTest_json =
  vpn_status :: "string option"
  vpn_error :: "string option"

record PingTest_json =
  ping_url :: "string option"
  ping_transmitted_packets :: "int option"
  ping_received_packets :: "int option"
  ping_loss_packets :: "rat option"
  ping_error :: "string option"

record TestResults_json =
  http_tests :: "HTTPTest_json list option"
  speed_tests :: "SpeedTest_json list option"
  vpn_test :: "VPNTest_json option"
  ping_test :: "PingTest_json option"
  timestamp :: "Time option"

datatype file_content = Unparsable string | Document TestResults_json

subsection \<open>Marshal\<close>

text \<open>
  A field tagged \<open>omitempty\<close> is left out when its value is empty: the number 0, a string
  or a slice of length 0. A struct value is never empty for \<open>encoding/json\<close>, so the tag
  has no effect on the fields \<open>VPNTest\<close> and \<open>PingTest\<close> of \<open>TestResults\<close>.
  NaN and the infinities cannot be written: \<open>Marshal\<close> then returns an error and no
  document.
\<close>

definition string_field :: "string \<Rightarrow> string option" where
  "string_field s = Some (toValidUTF8 s)"

definition omitempty_string :: "string \<Rightarrow> string option" where
  "omitempty_string s = (if length s = 0 then None else Some (toValidUTF8 s))"

definition omitempty_int :: "int \<Rightarrow> int option" where
  "omitempty_int n = (if n = 0 then None else Some n)"

definition marshal_float64 :: "float64 \<Rightarrow> string + rat" where
  "marshal_float64 f =
     (case f of
        Finite q \<Rightarrow> Inr q
      | PosInf \<Rightarrow> Inl ''json: unsupported value: +Inf''
      | NegInf \<Rightarrow> Inl ''json: unsupported value: -Inf''
      | NaN \<Rightarrow> Inl ''json: unsupported value: NaN'')"

definition omitempty_float64 :: "float64 \<Rightarrow> string + rat option" where
  "omitempty_float64 f =
     (if f = Finite 0 then Inr None
      else (case marshal_float64 f of Inl e \<Rightarrow> Inl e | Inr q \<Rightarrow> Inr (Some q)))"

text \<open>
  A time is written in RFC 3339 with nanoseconds: the date and the clock time of its own
  zone, then the offset of the zone in hours and minutes, the seconds of the offset cut
  off. \<open>Time.MarshalJSON\<close> fails when the year of that date is outside 0..9999 or the
  hours of the offset are 24 or more. The result below is the time that the text written
  denotes to \<open>Time.UnmarshalJSON\<close>: the same date and clock time, in a zone with the
  offset that was written.
\<close>

definition marshal_Time :: "Time \<Rightarrow> string + Time" where
  "marshal_Time t =
     (let local = instant t + zone_offset t * 1000000000;
          zone = quot (zone_offset t) 60
      in if local < - 366 * nanosPerDay \<or> 3652059 * nanosPerDay \<le> local
         then Inl ''Time.MarshalJSON: year outside of range [0,9999]''
         else if 24 \<le> quot \<bar>zone\<bar> 60
         then Inl ''Time.MarshalJSON: timezone hour outside of range [0,23]''
         else Inr \<lparr>instant = local - zone * 60 * 1000000000, zone_offset = zone * 60\<rparr>)"

definition marshal_HTTPTest :: "HTTPTest \<Rightarrow> HTTPTest_json" where
  "marshal_HTTPTest h =
     \<lparr>http_url = string_field (HTTP_URL h),
      http_status = string_field (HTTP_Status h),
      http_proto = omitempty_string (HTTP_Proto h),
      http_tls_version = omitempty_string (HTTP_TLSVersion h),
      http_cipher_suite = omitempty_string (HTTP_CipherSuite h),
      http_server_name = omitempty_string (HTTP_ServerName h),
      http_response_length = omitempty_int (HTTP_ResponseLength h),
      http_error = omitempty_string (HTTP_Error h)\<rparr>"

definition marshal_SpeedTest :: "SpeedTest \<Rightarrow> string + SpeedTest_json" where
  "marshal_SpeedTest s =
     (case marshal_float64 (Speed_DownloadMbps s) of
        Inl e \<Rightarrow> Inl e
      | Inr mbps \<Rightarrow>
          Inr \<lparr>speed_url = string_field (Speed_URL s),
               speed_download_mbps = Some mbps,
               speed_elapsed_time = Some (Speed_ElapsedTime s),
               speed_bytes_received = Some (Speed_BytesReceived s),
               speed_error = omitempty_string (Speed_Error s)\<rparr>)"

definition marshal_VPNTest :: "VPNTest \<Rightarrow> VPNTest_json" where
  "marshal_VPNTest v =
     \<lparr>vpn_status = string_field (VPN_Status v),
      vpn_error = omitempty_string (VPN_Error v)\<rparr>"

definition marshal_PingTest :: "PingTest \<Rightarrow> string + PingTest_json" where
  "marshal_PingTest p =
     (case omitempty_float64 (Ping_Loss p) of
        Inl e \<Rightarrow> Inl e
      | Inr loss \<Rightarrow>
          Inr \<lparr>ping_url = omitempty_string (Ping_URL p),
               ping_transmitted_packets = omitempty_int (Ping_Transmitted p),
               ping_received_packets = omitempty_int (Ping_Received p),
               ping_loss_packets = loss,
               ping_error = omitempty_string (Ping_Error p)\<rparr>)"

fun marshal_SpeedTests :: "SpeedTest list \<Rightarrow> string + SpeedTest_json list" where
  "marshal_SpeedTests [] = Inr []"
| "marshal_SpeedTests (s # ss) =
     (case marshal_SpeedTest s of
        Inl e \<Rightarrow> Inl e
      | Inr d \<Rightarrow> (case marshal_SpeedTests ss of Inl e \<Rightarrow> Inl e | Inr ds \<Rightarrow> Inr (d # ds)))"

definition json_MarshalIndent :: "TestResults \<Rightarrow> string + file_content" where
  "json_MarshalIndent r =
     (case marshal_SpeedTests (SpeedTests r) of
        Inl e \<Rightarrow> Inl e
      | Inr speeds \<Rightarrow>
          (case marshal_PingTest (PingTest r) of
             Inl e \<Rightarrow> Inl e
           | Inr ping \<Rightarrow>
               (case marshal_Time (Timestamp r) of
                  Inl e \<Rightarrow> Inl e
                | Inr t \<Rightarrow>
                    Inr (Document
                      \<lparr>http_tests =
                         (if length (HTTPTests r) = 0 then None
                          else Some (map marshal_HTTPTest (HTTPTests r))),
                       speed_tests = (if length (SpeedTests r) = 0 then None else Some speeds),
                       vpn_test = Some (marshal_VPNTest (VPNTest r)),
                       ping_test = Some ping,
                       timestamp = Some t\<rparr>))))"

subsection \<open>Unmarshal\<close>

text \<open>A key that is absent leaves the field of the fresh struct at its zero value.\<close>

definition string_of :: "string option \<Rightarrow> string" where
  "string_of v = (case v of None \<Rightarrow> [] | Some s \<Rightarrow> s)"

definition int_of :: "int option \<Rightarrow> int" where
  "int_of v = (case v of None \<Rightarrow> 0 | Some n \<Rightarrow> n)"

definition float64_of :: "rat option \<Rightarrow> float64" where
  "float64_of v = (case v of None \<Rightarrow> Finite 0 | Some q \<Rightarrow> Finite q)"

definition unmarshal_HTTPTest :: "HTTPTest_json \<Rightarrow> HTTPTest" where
  "unmarshal_HTTPTest d =
     \<lparr>HTTP_URL = string_of (http_url d),
      HTTP_Status = string_of (http_status d),
      HTTP_Proto = string_of (http_proto d),
      HTTP_TLSVersion = string_of (http_tls_version d),
      HTTP_CipherSuite = string_of (http_cipher_suite d),
      HTTP_ServerName = string_of (http_server_name d),
      HTTP_ResponseLength = int_of (http_response_length d),
      HTTP_Error = string_of (http_error d)\<rparr>"

definition unmarshal_SpeedTest :: "SpeedTest_json \<Rightarrow> SpeedTest" where
  "unmarshal_SpeedTest d =
     \<lparr>Speed_URL = string_of (speed_url d),
      Speed_DownloadMbps = float64_of (speed_download_mbps d),
      Speed_ElapsedTime = int_of (speed_elapsed_time d),
      Speed_BytesReceived = int_of (speed_bytes_received d),
      Speed_Error = string_of (speed_error d)\<rparr>"

definition unmarshal_VPNTest :: "VPNTest_json \<Rightarrow> VPNTest" where
  "unmarshal_VPNTest d =
     \<lparr>VPN_Status = string_of (vpn_status d), VPN_Error = string_of (vpn_error d)\<rparr>"

definition unmarshal_PingTest :: "PingTest_json \<Rightarrow> PingTest" where
  "unmarshal_PingTest d =
     \<lparr>Ping_URL = string_of (ping_url d),
      Ping_Transmitted = int_of (ping_transmitted_packets d),
      Ping_Received = int_of (ping_received_packets d),
      Ping_Loss = float64_of (ping_loss_packets d),
      Ping_Error = string_of (ping_error d)\<rparr>"

definition unmarshal_TestResults :: "TestResults_json \<Rightarrow> TestResults" where
  "unmarshal_TestResults d =
     \<lparr>HTTPTests = (case http_tests d of None \<Rightarrow> [] | Some hs \<Rightarrow> map unmarshal_HTTPTest hs),
      SpeedTests = (case speed_tests d of None \<Rightarrow> [] | Some ss \<Rightarrow> map unmarshal_SpeedTest ss),
      VPNTest = (case vpn_test d of None \<Rightarrow> zero_VPNTest | Some v \<Rightarrow> unmarshal_VPNTest v),
      PingTest = (case ping_test d of None \<Rightarrow> zero_PingTest | Some p \<Rightarrow> unmarshal_PingTest p),
      Timestamp = (case timestamp d of None \<Rightarrow> zero_Time | Some t \<Rightarrow> t)\<rparr>"

definition json_Unmarshal :: "file_content \<Rightarrow> string + TestResults" where
  "json_Unmarshal data =
     (case data of Unparsable e \<Rightarrow> Inl e | Document d \<Rightarrow> Inr (unmarshal_TestResults d))"

section \<open>The file system and the clock\<close>

text \<open>
  A path names no file, a file that cannot be read (with the error of the read), or a
  file with its content. \<open>os.WriteFile\<close> fails where \<open>write_error\<close> gives an error,
  and the error comes with what the failed write leaves behind: \<open>None\<close> when the file is
  as it was (it could not be opened), or the truncated content. Otherwise the write
  replaces the content. The permission bits are not kept.
  \<open>time.Now\<close> reads the system clock, which counts nanoseconds since the Unix epoch,
  and gives the time in the local zone; \<open>clock w n\<close> is the reading that the \<open>n\<close>-th
  call gets, \<open>zone w n\<close> the offset of the local zone at that reading, and \<open>ticks\<close>
  counts the calls.
\<close>

datatype node = Absent | Unreadable string | File file_content

record world =
  files :: "string \<Rightarrow> node"
  write_error :: "string \<Rightarrow> (string \<times> file_content option) option"
  clock :: "nat \<Rightarrow> nat"
  zone :: "nat \<Rightarrow> int"
  ticks :: nat

definition time_Now :: "world \<Rightarrow> Time \<times> world" where
  "time_Now w =
     (\<lparr>instant = 1000000000 * unixToInternal + int (clock w (ticks w)),
       zone_offset = zone w (ticks w)\<rparr>,
      w\<lparr>ticks := Suc (ticks w)\<rparr>)"

definition os_WriteFile :: "string \<Rightarrow> file_content \<Rightarrow> nat \<Rightarrow> world \<Rightarrow> string option \<times> world" where
  "os_WriteFile name data perm w =
     (case write_error w name of
        Some (e, None) \<Rightarrow> (Some e, w)
      | Some (e, Some partial) \<Rightarrow> (Some e, w\<lparr>files := (files w)(name := File partial)\<rparr>)
      | None \<Rightarrow> (None, w\<lparr>files := (files w)(name := File data)\<rparr>))"

section \<open>utils: LoadResults, SaveResults, AppendResult\<close>

text \<open>
  \<open>resultsMutex\<close> is held for the whole body of \<open>LoadResults\<close> and of \<open>SaveResults\<close>;
  the functions below are those bodies, run without interruption.
\<close>

definition LoadResults :: "string \<Rightarrow> world \<Rightarrow> (error + TestResults) \<times> world" where
  "LoadResults filePath w =
     (case files w filePath of
        Absent \<Rightarrow>
          (let (now, w') = time_Now w
           in (Inr (zero_TestResults\<lparr>Timestamp := now\<rparr>), w'))
      | Unreadable e \<Rightarrow>
          (Inl (NewNetworkError ''Storage'' ''failed to read results file'' (Some e)), w)
      | File data \<Rightarrow>
          (case json_Unmarshal data of
             Inl e \<Rightarrow> (Inl (NewParseError ''Storage'' ''failed to parse results JSON'' (Some e)), w)
           | Inr results \<Rightarrow> (Inr results, w)))"

text \<open>
  \<open>SaveResults\<close> takes a pointer: \<open>None\<close> is nil. It returns its error (\<open>None\<close> is nil),
  the report the pointer refers to after the call, and the world after the call.
\<close>

definition SaveResults ::
  "TestResults option \<Rightarrow> string \<Rightarrow> nat \<Rightarrow> world \<Rightarrow> error option \<times> TestResults option \<times> world" where
  "SaveResults results filePath filePermissions w =
     (case results of
        None \<Rightarrow> (Some (NewValidationError ''Storage'' ''results cannot be nil''), None, w)
      | Some r \<Rightarrow>
          (let (r1, w1) =
                 (if IsZero (Timestamp r)
                  then (let (now, w') = time_Now w in (r\<lparr>Timestamp := now\<rparr>, w'))
                  else (r, w))
           in (case json_MarshalIndent r1 of
                 Inl e \<Rightarrow>
                   (Some (NewParseError ''Storage'' ''failed to marshal results to JSON'' (Some e)),
                    Some r1, w1)
               | Inr data \<Rightarrow>
                   (case os_WriteFile filePath data filePermissions w1 of
                      (Some e, w2) \<Rightarrow>
                        (Some (NewNetworkError ''Storage'' ''failed to write results file'' (Some e)),
                         Some r1, w2)
                    | (None, w2) \<Rightarrow> (None, Some r1, w2)))))"

text \<open>
  \<open>AppendResult\<close> returns what its call of \<open>SaveResults\<close> returns; the first component
  is the error of the Go function.
\<close>

definition AppendResult ::
  "HTTPTest list \<Rightarrow> SpeedTest list \<Rightarrow> VPNTest option \<Rightarrow> PingTest option \<Rightarrow> string \<Rightarrow> nat
     \<Rightarrow> world \<Rightarrow> error option \<times> TestResults option \<times> world" where
  "AppendResult httpTests speedTests vpnTest pingTest filePath filePermissions w =
     (let (loaded, w1) = LoadResults filePath w;
          (results, w2) =
            (case loaded of
               Inl err \<Rightarrow> (let (now, w') = time_Now w1 in (zero_TestResults\<lparr>Timestamp := now\<rparr>, w'))
             | Inr r \<Rightarrow> (r, w1));
          results = (if length httpTests > 0
                     then results\<lparr>HTTPTests := HTTPTests results @ httpTests\<rparr> else results);
          results = (if length speedTests > 0
                     then results\<lparr>SpeedTests := SpeedTests results @ speedTests\<rparr> else results);
          results = (case vpnTest of None \<Rightarrow> results | Some v \<Rightarrow> results\<lparr>VPNTest := v\<rparr>);
          results = (case pingTest of None \<Rightarrow> results | Some p \<Rightarrow> results\<lparr>PingTest := p\<rparr>);
          (now, w3) = time_Now w2;
          results = results\<lparr>Timestamp := now\<rparr>
      in SaveResults (Some results) filePath filePermissions w3)"

section \<open>config\<close>

record Config =
  HTTPTimeout :: int
  PingCount :: int
  PingTimeout :: int
  SpeedTestTimeout :: int
  ResultsFilePath :: string

definition DefaultHTTPTimeout :: int where
  "DefaultHTTPTimeout = 5 * 1000000000"

definition DefaultPingCount :: int where
  "DefaultPingCount = 5"

definition DefaultPingTimeout :: int where
  "DefaultPingTimeout = 10 * 1000000000"

definition DefaultSpeedTestTimeout :: int where
  "DefaultSpeedTestTimeout = 10 * 1000000000"

definition DefaultResultsFilePath :: string where
  "DefaultResultsFilePath = ''data.json''"

definition FilePermissions :: nat where
  "FilePermissions = 420"

definition config_New :: Config where
  "config_New =
     \<lparr>HTTPTimeout = DefaultHTTPTimeout, PingCount = DefaultPingCount,
      PingTimeout = DefaultPingTimeout, SpeedTestTimeout = DefaultSpeedTestTimeout,
      ResultsFilePath = DefaultResultsFilePath\<rparr>"

section \<open>modules: the probes\<close>

text \<open>
  What the network and the libraries answer is an argument of every probe: \<open>net\<close> holds,
  for each library call a probe makes, the outcome of the call. A library error is kept
  by its message (\<open>err.Error()\<close>). Log and console output is not modelled.
\<close>

record ConnectionState =
  Version :: nat
  CipherSuite :: nat
  ServerName :: string

record Response =
  Status :: string
  Proto :: string
  TLS :: "ConnectionState option"
  Body :: "string + string"

record Packet =
  Nbytes :: int
  Seq :: int

record Statistics =
  PacketsSent :: int
  PacketsRecv :: int
  PacketLoss :: float64

datatype ping_event = OnRecv Packet | OnDuplicateRecv Packet | OnFinish Statistics

text \<open>
  \<open>pinger_Run\<close> is \<open>pinger.Run()\<close> of the ping library: it calls the handlers the caller
  registered, in some order, and then returns its error (\<open>None\<close> is nil).
  \<open>float_mbps\<close> is the floating-point value of
  \<open>(float64(len(body)) / elapsedTime.Seconds() / BytesToMegabytes) * BytesToBits\<close>.
\<close>

record net =
  http_NewRequest :: "string \<Rightarrow> string option"
  client_Do :: "int \<Rightarrow> string \<Rightarrow> string + Response"
  speed_Get :: "int \<Rightarrow> string \<Rightarrow> string + (string + string) \<times> int"
  float_mbps :: "nat \<Rightarrow> int \<Rightarrow> float64"
  http_Get :: "string \<Rightarrow> string + (string + string)"
  FindStringSubmatch :: "string \<Rightarrow> string list"
  ParseIP_ok :: "string \<Rightarrow> bool"
  LookupHost :: "string \<Rightarrow> string + string list"
  ping_NewPinger :: "string \<Rightarrow> string option"
  pinger_Run :: "string \<Rightarrow> int \<Rightarrow> ping_event list \<times> string option"

text \<open>\<open>fmt.Sprintf("%d", n)\<close> on an unsigned value.\<close>

fun fmt_d :: "nat \<Rightarrow> string" where
  "fmt_d n =
     (if n < 10 then [char_of (48 + n)]
      else fmt_d (n div 10) @ [char_of (48 + n mod 10)])"

declare fmt_d.simps [simp del]

definition TestHTTP :: "net \<Rightarrow> string \<Rightarrow> Config \<Rightarrow> HTTPTest" where
  "TestHTTP nw url cfg =
     (let result = zero_HTTPTest\<lparr>HTTP_URL := url\<rparr>
      in case http_NewRequest nw url of
           Some err \<Rightarrow> result\<lparr>HTTP_Error := err\<rparr>
         | None \<Rightarrow>
             (case client_Do nw (HTTPTimeout cfg) url of
                Inl err \<Rightarrow> result\<lparr>HTTP_Error := err\<rparr>
              | Inr resp \<Rightarrow>
                  (let result = result\<lparr>HTTP_Status := Status resp, HTTP_Proto := Proto resp\<rparr>;
                       result =
                         (case TLS resp of
                            None \<Rightarrow> result
                          | Some tls \<Rightarrow>
                              result\<lparr>HTTP_TLSVersion := fmt_d (Version tls),
                                     HTTP_CipherSuite := fmt_d (CipherSuite tls),
                                     HTTP_ServerName := ServerName tls\<rparr>)
                   in case Body resp of
                        Inl err \<Rightarrow> result\<lparr>HTTP_Error := err\<rparr>
                      | Inr body \<Rightarrow> result\<lparr>HTTP_ResponseLength := int (length body)\<rparr>)))"

definition CheckSpeed :: "net \<Rightarrow> string \<Rightarrow> Config \<Rightarrow> SpeedTest" where
  "CheckSpeed nw url cfg =
     (let result = zero_SpeedTest\<lparr>Speed_URL := url\<rparr>
      in case speed_Get nw (SpeedTestTimeout cfg) url of
           Inl err \<Rightarrow> result\<lparr>Speed_Error := err\<rparr>
         | Inr (Inl err, elapsedTime) \<Rightarrow> result\<lparr>Speed_Error := err\<rparr>
         | Inr (Inr body, elapsedTime) \<Rightarrow>
             result\<lparr>Speed_ElapsedTime := elapsedTime,
                    Speed_BytesReceived := int (length body),
                    Speed_DownloadMbps := float_mbps nw (length body) elapsedTime\<rparr>)"

definition CheckVPN :: "net \<Rightarrow> string \<Rightarrow> VPNTest" where
  "CheckVPN nw ipChecker =
     (let result = zero_VPNTest
      in case http_Get nw ipChecker of
           Inl err \<Rightarrow> result\<lparr>VPN_Error := err\<rparr>
         | Inr (Inl err) \<Rightarrow> result\<lparr>VPN_Error := err\<rparr>
         | Inr (Inr body) \<Rightarrow>
             (let matches = FindStringSubmatch nw body
              in if length matches < 2
                 then result\<lparr>VPN_Error := ''could not extract IP address from response''\<rparr>
                 else
                   (let externalIP = matches ! 1
                    in if \<not> ParseIP_ok nw externalIP
                       then result\<lparr>VPN_Error := ''invalid IP address extracted: '' @ externalIP\<rparr>
                       else
                         (case LookupHost nw ''localhost'' of
                            Inl err \<Rightarrow> result\<lparr>VPN_Error := err\<rparr>
                          | Inr localIPs \<Rightarrow>
                              if length localIPs = 0
                              then result\<lparr>VPN_Error := ''no local IP addresses found''\<rparr>
                              else if externalIP = localIPs ! 0
                              then result\<lparr>VPN_Status := ''Not using VPN or proxy.''\<rparr>
                              else result\<lparr>VPN_Status := ''Using VPN or proxy.''\<rparr>))))"

text \<open>
  The three handlers that \<open>PingCheck\<close> registers, as updates of the result record they
  close over: \<open>OnRecv\<close> and \<open>OnDuplicateRecv\<close> only log, \<open>OnFinish\<close> stores the statistics.
\<close>

fun handle :: "PingTest \<Rightarrow> ping_event \<Rightarrow> PingTest" where
  "handle result (OnRecv pkt) = result"
| "handle result (OnDuplicateRecv pkt) = result"
| "handle result (OnFinish stats) =
     result\<lparr>Ping_Transmitted := PacketsSent stats,
            Ping_Received := PacketsRecv stats,
            Ping_Loss := PacketLoss stats\<rparr>"

definition PingCheck :: "net \<Rightarrow> string \<Rightarrow> Config \<Rightarrow> PingTest" where
  "PingCheck nw domain cfg =
     (let result = zero_PingTest\<lparr>Ping_URL := domain\<rparr>
      in case ping_NewPinger nw domain of
           Some err \<Rightarrow> result\<lparr>Ping_Error := err\<rparr>
         | None \<Rightarrow>
             (let (events, ret) = pinger_Run nw domain (PingCount cfg);
                  result = foldl handle result events
              in case ret of
                   Some err \<Rightarrow> result\<lparr>Ping_Error := err\<rparr>
                 | None \<Rightarrow> result))"

section \<open>main: the orchestrator\<close>

text \<open>
  Every probe runs in a goroutine of its own and hands its result over when it is done.
  A pass is modelled by the order in which the launched goroutines complete: the order in
  which they take the mutex in \<open>runAllTests\<close>, the order of the indexed writes in
  \<open>runHTTPTests\<close>. That order is the choice of the scheduler, an argument \<open>completion\<close>
  that maps the list of the tasks launched to the list in which they complete.
  \<open>wg.Wait()\<close> returns when every launched task is done, so a scheduler of a pass
  rearranges the list it is given and neither drops nor repeats a task.
\<close>

datatype task = HTTPTask string | SpeedTask string | VPNTask | PingTask string

record collector =
  httpTests :: "HTTPTest option list"
  speedTests :: "SpeedTest option list"
  vpnTest :: "VPNTest option"
  pingTest :: "PingTest option"

definition httpURLs :: "string list" where
  "httpURLs = [''http://www.google.com/'', ''https://www.google.com/'',
     ''https://www.facebook.com/'', ''https://www.youtube.com/'', ''https://leader.ir/'']"

definition speedURLs :: "string list" where
  "speedURLs = [''https://ehsanghaffarii.ir'', ''https://google.com'']"

definition pingDomains :: "string list" where
  "pingDomains = [''www.ehsanghaffarii.ir'', ''www.google.com'']"

definition launch :: "string list \<Rightarrow> string list \<Rightarrow> string list \<Rightarrow> task list" where
  "launch hs ss ps = map HTTPTask hs @ map SpeedTask ss @ [VPNTask] @ map PingTask ps"

definition runAllTests_tasks :: "task list" where
  "runAllTests_tasks = launch httpURLs speedURLs pingDomains"

text \<open>The body of each goroutine of \<open>runAllTests\<close>: the probe, then the store.\<close>

fun complete :: "net \<Rightarrow> Config \<Rightarrow> collector \<Rightarrow> task \<Rightarrow> collector" where
  "complete nw cfg c (HTTPTask u) =
     (let result = TestHTTP nw u cfg in c\<lparr>httpTests := httpTests c @ [Some result]\<rparr>)"
| "complete nw cfg c (SpeedTask u) =
     (let result = CheckSpeed nw u cfg in c\<lparr>speedTests := speedTests c @ [Some result]\<rparr>)"
| "complete nw cfg c VPNTask = c\<lparr>vpnTest := Some (CheckVPN nw ''http://checkip.dyndns.org/'')\<rparr>"
| "complete nw cfg c (PingTask d) =
     (let result = PingCheck nw d cfg
      in if pingTest c = None then c\<lparr>pingTest := Some result\<rparr> else c)"

definition no_results :: collector where
  "no_results = \<lparr>httpTests = [], speedTests = [], vpnTest = None, pingTest = None\<rparr>"

text \<open>The two range statements that copy the non-nil pointers into a slice of values.\<close>

fun values_of :: "'a option list \<Rightarrow> 'a list" where
  "values_of [] = []"
| "values_of (None # tests) = values_of tests"
| "values_of (Some test # tests) = test # values_of tests"

definition aggregate :: "collector \<Rightarrow> TestResults" where
  "aggregate c =
     (let testResults = zero_TestResults\<lparr>HTTPTests := values_of (httpTests c),
                                          SpeedTests := values_of (speedTests c)\<rparr>;
          testResults = (case vpnTest c of None \<Rightarrow> testResults
                         | Some v \<Rightarrow> testResults\<lparr>VPNTest := v\<rparr>);
          testResults = (case pingTest c of None \<Rightarrow> testResults
                         | Some p \<Rightarrow> testResults\<lparr>PingTest := p\<rparr>)
      in testResults)"

definition runAllTests ::
  "net \<Rightarrow> Config \<Rightarrow> (task list \<Rightarrow> task list) \<Rightarrow> world
     \<Rightarrow> error option \<times> TestResults option \<times> world" where
  "runAllTests nw cfg completion w =
     (let c = foldl (complete nw cfg) no_results (completion runAllTests_tasks)
      in SaveResults (Some (aggregate c)) (ResultsFilePath cfg) FilePermissions w)"

text \<open>
  \<open>runHTTPTests\<close>: goroutine \<open>index\<close> writes slot \<open>index\<close> of a slice that starts with
  \<open>len(urls)\<close> nil pointers; the tasks launched are the indices of \<open>urls\<close>.
\<close>

definition runHTTPTests ::
  "net \<Rightarrow> Config \<Rightarrow> string list \<Rightarrow> (nat list \<Rightarrow> nat list) \<Rightarrow> world
     \<Rightarrow> error option \<times> TestResults option \<times> world" where
  "runHTTPTests nw cfg urls completion w =
     (let httpTests =
            foldl (\<lambda>tests index. tests[index := Some (TestHTTP nw (urls ! index) cfg)])
              (replicate (length urls) None) (completion [0..<length urls]);
          results = values_of httpTests;
          testResults = zero_TestResults\<lparr>HTTPTests := results\<rparr>
      in SaveResults (Some testResults) (ResultsFilePath cfg) FilePermissions w)"

text \<open>\<open>main\<close>: the HTTP tests on the arguments when there are any, all tests otherwise.\<close>

definition main ::
  "string list \<Rightarrow> net \<Rightarrow> (task list \<Rightarrow> task list) \<Rightarrow> (nat list \<Rightarrow> nat list) \<Rightarrow> world
     \<Rightarrow> error option \<times> TestResults option \<times> world" where
  "main args nw completion writes w =
     (let cfg = config_New
      in if length args > 0 then runHTTPTests nw cfg args writes w
         else runAllTests nw cfg completion w)"

section \<open>The session of the ping library\<close>

text \<open>
  Modelled from the spec: the echo session that \<open>pinger.Run()\<close> drives. It is code of the
  ping library (go-ping), which is not in the repository; \<open>PingCheck\<close> only registers its
  handlers and copies the statistics it is handed. The specification's ping probe
  (section 4.2) has a session with the counters \<open>transmitted\<close> and \<open>received\<close>, at zero
  when it is created, and an echo sequence of a configured packet count in flight while
  it runs. A receive event increments \<open>received\<close>; a duplicate-receive event, for an echo
  reply that does not count as a new successful packet, does not; the finish event hands
  over the final transmitted count, received count and loss percentage,
  \<open>(transmitted - received) / transmitted * 100\<close> (NaN when nothing was transmitted).
  An interrupt ends the sequence and the statistics accumulated so far are reported.

  The session keeps the sequence numbers of the echo requests in flight. What reaches it
  is that the next echo request goes out, or that an echo reply with some sequence number
  arrives: a reply to a request in flight is a receive and takes the request out of
  flight, any other reply is a duplicate. No request goes out once the packet count has
  been transmitted, and the session finishes when the packet count has been received or
  when nothing more reaches it (a timeout or an interrupt).
\<close>

record PingSession =
  transmitted :: int
  received :: int
  in_flight :: "nat list"
  next_seq :: nat

datatype wire = Echo | Reply int nat

definition new_session :: PingSession where
  "new_session = \<lparr>transmitted = 0, received = 0, in_flight = [], next_seq = 0\<rparr>"

definition lossPercent :: "int \<Rightarrow> int \<Rightarrow> float64" where
  "lossPercent sent recv =
     (if sent = 0 then NaN else Finite (of_int (sent - recv) / of_int sent * 100))"

definition statistics :: "PingSession \<Rightarrow> Statistics" where
  "statistics s =
     \<lparr>PacketsSent = transmitted s, PacketsRecv = received s,
      PacketLoss = lossPercent (transmitted s) (received s)\<rparr>"

fun step :: "int \<Rightarrow> PingSession \<Rightarrow> wire \<Rightarrow> PingSession \<times> ping_event list" where
  "step Count s Echo =
     (if 0 < Count \<and> Count \<le> transmitted s then (s, [])
      else (s\<lparr>transmitted := transmitted s + 1,
              in_flight := next_seq s # in_flight s,
              next_seq := Suc (next_seq s)\<rparr>, []))"
| "step Count s (Reply nbytes n) =
     (if n \<in> set (in_flight s)
      then (s\<lparr>received := received s + 1, in_flight := removeAll n (in_flight s)\<rparr>,
            [OnRecv \<lparr>Nbytes = nbytes, Seq = int n\<rparr>])
      else (s, [OnDuplicateRecv \<lparr>Nbytes = nbytes, Seq = int n\<rparr>]))"

fun session_run :: "int \<Rightarrow> PingSession \<Rightarrow> wire list \<Rightarrow> ping_event list" where
  "session_run Count s [] = [OnFinish (statistics s)]"
| "session_run Count s (x # xs) =
     (let (s', out) = step Count s x
      in if 0 < Count \<and> Count \<le> received s' then out @ [OnFinish (statistics s')]
         else out @ session_run Count s' xs)"

text \<open>
  \<open>Run\<close> on a network: the socket is refused and \<open>Run\<close> returns the error before the
  session starts, or the session runs on what reaches it and \<open>Run\<close> returns after the
  finish event, with or without an error.
\<close>

datatype ping_network = ListenFails string | Echoes "wire list" "string option"

definition library_Run :: "ping_network \<Rightarrow> int \<Rightarrow> ping_event list \<times> string option" where
  "library_Run pn Count =
     (case pn of
        ListenFails e \<Rightarrow> ([], Some e)
      | Echoes wires ret \<Rightarrow> (session_run Count new_session wires, ret))"

section \<open>Properties: the vocabulary of the statements\<close>







text \<open>
  The composition that the specification gives for \<open>append\<close>: load, merge the given
  results into the loaded report (the sequences concatenate, a given VPN or Ping record
  overwrites the slot), save the merged report.
\<close>

definition merge_spec ::
  "TestResults \<Rightarrow> HTTPTest list \<Rightarrow> SpeedTest list \<Rightarrow> VPNTest option \<Rightarrow> PingTest option
     \<Rightarrow> TestResults" where
  "merge_spec loaded https speeds vpn ping =
     loaded\<lparr>HTTPTests := HTTPTests loaded @ https,
            SpeedTests := SpeedTests loaded @ speeds,
            VPNTest := (case vpn of None \<Rightarrow> VPNTest loaded | Some v \<Rightarrow> v),
            PingTest := (case ping of None \<Rightarrow> PingTest loaded | Some p \<Rightarrow> p)\<rparr>"

definition append_spec ::
  "HTTPTest list \<Rightarrow> SpeedTest list \<Rightarrow> VPNTest option \<Rightarrow> PingTest option \<Rightarrow> string \<Rightarrow> nat
     \<Rightarrow> world \<Rightarrow> error option \<times> TestResults option \<times> world" where
  "append_spec https speeds vpn ping filePath filePermissions w =
     (case LoadResults filePath w of
        (Inl err, w1) \<Rightarrow> (Some err, None, w1)
      | (Inr loaded, w1) \<Rightarrow>
          SaveResults (Some (merge_spec loaded https speeds vpn ping))
            filePath filePermissions w1)"

text \<open>A task of the ping kind.\<close>

fun is_ping :: "task \<Rightarrow> bool" where
  "is_ping (PingTask d) = True"
| "is_ping t = False"

text \<open>The targets of the HTTP tasks of an order, in that order.\<close>

fun http_targets :: "task list \<Rightarrow> string list" where
  "http_targets [] = []"
| "http_targets (HTTPTask u # ts) = u # http_targets ts"
| "http_targets (t # ts) = http_targets ts"

section \<open>Properties: the inputs of the examples\<close>

text \<open>
  A disk with no file on which every write succeeds, and a clock that reads
  2024-01-15 10:30:45 UTC at the first call and one second more at each later call,
  in a local zone three and a half hours east of UTC.
\<close>

definition empty_disk :: world where
  "empty_disk =
     \<lparr>files = (\<lambda>name. Absent), write_error = (\<lambda>name. None),
      clock = (\<lambda>n. 1705314645000000000 + 1000000000 * n), zone = (\<lambda>n. 12600),
      ticks = 0\<rparr>"

text \<open>The time that the first call of \<open>time.Now\<close> returns on that disk.\<close>

definition first_reading :: Time where
  "first_reading =
     \<lparr>instant = 1000000000 * unixToInternal + 1705314645000000000, zone_offset = 12600\<rparr>"

text \<open>
  A time in the zone of Amsterdam before 1937, 19 minutes and 32 seconds east of UTC.
\<close>

definition amsterdam_1900 :: Time where
  "amsterdam_1900 = \<lparr>instant = 59926608000000000000, zone_offset = 1172\<rparr>"

text \<open>The Unix epoch, in UTC.\<close>

definition unix_epoch :: Time where
  "unix_epoch = \<lparr>instant = 1000000000 * unixToInternal, zone_offset = 0\<rparr>"

text \<open>The same disk with a file \<open>data.json\<close> that holds only a timestamp, the Unix epoch.\<close>

definition stamped_disk :: world where
  "stamped_disk =
     empty_disk\<lparr>files := (files empty_disk)
       (''data.json'' := File (Document
          \<lparr>http_tests = None, speed_tests = None, vpn_test = None, ping_test = None,
           timestamp = Some unix_epoch\<rparr>))\<rparr>"

definition google_ok :: HTTPTest where
  "google_ok = zero_HTTPTest\<lparr>HTTP_URL := ''https://www.google.com/'',
     HTTP_Status := ''200 OK'', HTTP_Proto := ''HTTP/2.0'', HTTP_TLSVersion := ''772'',
     HTTP_ResponseLength := 15678\<rparr>"

definition sample_report :: TestResults where
  "sample_report =
     \<lparr>HTTPTests = [google_ok],
      SpeedTests = [],
      VPNTest = \<lparr>VPN_Status = ''Using VPN or proxy.'', VPN_Error = []\<rparr>,
      PingTest = \<lparr>Ping_URL = ''www.google.com'', Ping_Transmitted = 5, Ping_Received = 3,
                  Ping_Loss = Finite 40, Ping_Error = []\<rparr>,
      Timestamp = zero_Time\<rparr>"


text \<open>
  A network on which nothing answers, and one on which the echo sequence of a ping
  reports two packets sent and one received to \<open>OnFinish\<close> and \<open>Run\<close> then returns an error.
\<close>

definition offline :: net where
  "offline =
     \<lparr>http_NewRequest = (\<lambda>url. None),
      client_Do = (\<lambda>timeout url. Inl ''dial tcp: network is unreachable''),
      speed_Get = (\<lambda>timeout url. Inl ''dial tcp: network is unreachable''),
      float_mbps = (\<lambda>n elapsed. Finite 0),
      http_Get = (\<lambda>url. Inl ''dial tcp: network is unreachable''),
      FindStringSubmatch = (\<lambda>body. []),
      ParseIP_ok = (\<lambda>ip. False),
      LookupHost = (\<lambda>host. Inr [''127.0.0.1'']),
      ping_NewPinger = (\<lambda>domain. Some ''lookup: no such host''),
      pinger_Run = (\<lambda>domain count. ([], None))\<rparr>"

definition broken_echo :: net where
  "broken_echo =
     offline\<lparr>ping_NewPinger := (\<lambda>domain. None),
             pinger_Run := (\<lambda>domain count.
               ([OnRecv \<lparr>Nbytes = 32, Seq = 0\<rparr>,
                 OnFinish \<lparr>PacketsSent = 2, PacketsRecv = 1, PacketLoss = Finite 50\<rparr>],
                Some ''read ip4 0.0.0.0: i/o timeout''))\<rparr>"

definition lossy_echo :: net where
  "lossy_echo =
     offline\<lparr>ping_NewPinger := (\<lambda>domain. None),
             pinger_Run := (\<lambda>domain count.
               ([OnRecv \<lparr>Nbytes = 32, Seq = 0\<rparr>, OnRecv \<lparr>Nbytes = 32, Seq = 1\<rparr>,
                 OnDuplicateRecv \<lparr>Nbytes = 32, Seq = 1\<rparr>, OnRecv \<lparr>Nbytes = 32, Seq = 3\<rparr>,
                 OnFinish \<lparr>PacketsSent = count, PacketsRecv = 3, PacketLoss = Finite 40\<rparr>],
                None))\<rparr>"

text \<open>
  What reaches a session of five echo requests of which the third and the fifth are not
  answered and the second is answered twice.
\<close>

definition three_of_five :: ping_network where
  "three_of_five =
     Echoes [Echo, Reply 32 0, Echo, Reply 32 1, Reply 32 1, Echo, Echo, Reply 32 3, Echo] None"

text \<open>A network on which the ping library is refused its socket: \<open>Run\<close> fails at once.\<close>

definition no_socket :: net where
  "no_socket =
     offline\<lparr>ping_NewPinger := (\<lambda>domain. None),
             pinger_Run := (\<lambda>domain count.
               ([], Some ''listen ip4:icmp 0.0.0.0: socket: operation not permitted''))\<rparr>"

section \<open>The result store\<close>

subsection \<open>Evaluation on concrete inputs\<close>

lemmas eval_defs = SaveResults_def LoadResults_def json_MarshalIndent_def json_Unmarshal_def
  os_WriteFile_def time_Now_def IsZero_def unixToInternal_def nanosPerDay_def
  marshal_Time_def marshal_PingTest_def marshal_VPNTest_def marshal_HTTPTest_def
  marshal_SpeedTest_def marshal_float64_def omitempty_float64_def omitempty_string_def
  omitempty_int_def string_field_def toValidUTF8_def rune_len_def
  unmarshal_TestResults_def unmarshal_HTTPTest_def unmarshal_SpeedTest_def
  unmarshal_VPNTest_def unmarshal_PingTest_def string_of_def int_of_def float64_of_def
  zero_TestResults_def zero_HTTPTest_def zero_VPNTest_def zero_PingTest_def zero_SpeedTest_def
  empty_disk_def FilePermissions_def quot_def zero_Time_def unix_epoch_def first_reading_def

subsection \<open>The clock and the stamp\<close>

lemma now_nonzero: "\<not> IsZero (fst (time_Now w))"
  by (simp add: time_Now_def IsZero_def unixToInternal_def)

lemma SaveResults_report:
  "fst (snd (SaveResults (Some r) p perm w)) =
     Some (r\<lparr>Timestamp := (if IsZero (Timestamp r) then fst (time_Now w) else Timestamp r)\<rparr>)"
  by (simp add: SaveResults_def Let_def split: prod.splits sum.splits option.splits)


text \<open>
  C8. \<open>SaveResults\<close> on a nil report returns the validation error, before anything is
  serialized or written: the files, and the whole world, are those before the call.
\<close>

theorem SaveResults_nil_rejected:
  "SaveResults None filePath filePermissions w =
     (Some (NewValidationError ''Storage'' ''results cannot be nil''), None, w)"
  by (simp add: SaveResults_def)

text \<open>
  C5. \<open>LoadResults\<close> on a path that names no file returns no error and a report with no
  HTTP and no speed results, the zero VPN and Ping records, and the time of the call as
  its timestamp, which is not the zero time.
\<close>

theorem LoadResults_absent:
  assumes "files w filePath = Absent"
  shows "\<exists>r w'. LoadResults filePath w = (Inr r, w') \<and>
     HTTPTests r = [] \<and> SpeedTests r = [] \<and>
     VPNTest r = zero_VPNTest \<and> PingTest r = zero_PingTest \<and>
     Timestamp r = fst (time_Now w) \<and> \<not> IsZero (Timestamp r)"
  using assms now_nonzero [of w]
  by (auto simp add: LoadResults_def zero_TestResults_def split: prod.splits)

theorem LoadResults_absent_witness:
  "files empty_disk ''data.json'' = Absent \<and>
   (\<exists>r w'. LoadResults ''data.json'' empty_disk = (Inr r, w') \<and>
     HTTPTests r = [] \<and> SpeedTests r = [] \<and>
     VPNTest r = zero_VPNTest \<and> PingTest r = zero_PingTest \<and>
     Timestamp r = fst (time_Now empty_disk) \<and> \<not> IsZero (Timestamp r))"
proof -
  have h: "files empty_disk ''data.json'' = Absent"
    by (simp add: empty_disk_def)
  show ?thesis
    using h LoadResults_absent [OF h] by simp
qed

text \<open>
  C9. \<open>SaveResults\<close> on a report changes its timestamp exactly when the timestamp is the
  zero time, to the time of the call; the HTTP, speed, VPN and Ping contents of the report
  after the call are those given, and when the call succeeds the file holds the
  serialization of that report.
\<close>

theorem SaveResults_frame:
  "\<exists>r1. fst (snd (SaveResults (Some r) filePath filePermissions w)) = Some r1 \<and>
     HTTPTests r1 = HTTPTests r \<and> SpeedTests r1 = SpeedTests r \<and>
     VPNTest r1 = VPNTest r \<and> PingTest r1 = PingTest r \<and>
     (if IsZero (Timestamp r)
      then Timestamp r1 = fst (time_Now w) \<and> Timestamp r1 \<noteq> Timestamp r
      else Timestamp r1 = Timestamp r) \<and>
     (fst (SaveResults (Some r) filePath filePermissions w) = None \<longrightarrow>
        (\<exists>data. json_MarshalIndent r1 = Inr data \<and>
           files (snd (snd (SaveResults (Some r) filePath filePermissions w))) filePath =
             File data))"
  using now_nonzero [of w]
  by (auto simp add: SaveResults_def Let_def os_WriteFile_def IsZero_def
      split: prod.splits sum.splits option.splits)

theorem SaveResults_frame_witness:
  "IsZero (Timestamp sample_report) \<and>
   fst (SaveResults (Some sample_report) ''data.json'' FilePermissions empty_disk) = None \<and>
   (\<exists>r1. fst (snd (SaveResults (Some sample_report) ''data.json'' FilePermissions empty_disk)) =
       Some r1 \<and>
     HTTPTests r1 = HTTPTests sample_report \<and> SpeedTests r1 = SpeedTests sample_report \<and>
     VPNTest r1 = VPNTest sample_report \<and> PingTest r1 = PingTest sample_report \<and>
     Timestamp r1 = fst (time_Now empty_disk) \<and> Timestamp r1 \<noteq> Timestamp sample_report \<and>
     (\<exists>data. json_MarshalIndent r1 = Inr data \<and>
        files (snd (snd (SaveResults (Some sample_report) ''data.json'' FilePermissions empty_disk)))
          ''data.json'' = File data))"
proof -
  have z: "IsZero (Timestamp sample_report)"
    by (simp add: IsZero_def sample_report_def zero_Time_def)
  have a: "fst (SaveResults (Some sample_report) ''data.json'' FilePermissions empty_disk) = None"
    by (simp add: eval_defs sample_report_def google_ok_def)
  show ?thesis
    using z a SaveResults_frame [of sample_report "''data.json''" FilePermissions empty_disk]
    by auto
qed

subsection \<open>The serialized document\<close>

lemma marshal_fields_present:
  "json_MarshalIndent r = Inr (Document d) \<Longrightarrow>
     vpn_test d \<noteq> None \<and> ping_test d \<noteq> None \<and> timestamp d \<noteq> None \<and>
     (http_tests d = None \<longleftrightarrow> HTTPTests r = []) \<and>
     (speed_tests d = None \<longleftrightarrow> SpeedTests r = [])"
  by (auto simp add: json_MarshalIndent_def split: sum.splits if_splits)

text \<open>
  C3. \<open>SaveResults\<close> on a report with no results at all, on a disk with no file: in the
  document it writes, the keys \<open>http_tests\<close> and \<open>speed_tests\<close> are absent and
  \<open>timestamp\<close> is present, but \<open>vpn_test\<close> and \<open>ping_test\<close> are present although both
  records hold their zero values.
\<close>

theorem empty_report_document:
  "SaveResults (Some zero_TestResults) ''data.json'' FilePermissions empty_disk =
     (None,
      Some (zero_TestResults\<lparr>Timestamp := first_reading\<rparr>),
      empty_disk\<lparr>ticks := 1,
        files := (files empty_disk)(''data.json'' := File (Document
          \<lparr>http_tests = None, speed_tests = None,
           vpn_test = Some \<lparr>vpn_status = Some [], vpn_error = None\<rparr>,
           ping_test = Some \<lparr>ping_url = None, ping_transmitted_packets = None,
             ping_received_packets = None, ping_loss_packets = None, ping_error = None\<rparr>,
           timestamp = Some first_reading\<rparr>))\<rparr>)"
  by (simp add: eval_defs)

subsection \<open>Save, then load\<close>

















text \<open>
  The seconds of a zone offset are lost: a time at midnight UTC, in a zone 19 minutes and
  32 seconds east, is written as 00:19:32 at 19 minutes east, which is 32 seconds later.
\<close>

lemma marshal_Time_seconds_cut:
  "marshal_Time amsterdam_1900 =
     Inr \<lparr>instant = instant amsterdam_1900 + 32 * 1000000000, zone_offset = 19 * 60\<rparr>"
  by (simp add: marshal_Time_def amsterdam_1900_def quot_def nanosPerDay_def)




subsection \<open>Append\<close>

text \<open>
  When \<open>LoadResults\<close> returns an error, \<open>AppendResult\<close> goes on from an empty report.
\<close>

lemma AppendResult_load_error:
  assumes "LoadResults filePath w = (Inl err, w1)"
  shows "AppendResult https speeds vpn ping filePath filePermissions w =
     SaveResults
       (Some ((merge_spec zero_TestResults https speeds vpn ping)
                \<lparr>Timestamp := fst (time_Now (snd (time_Now w1)))\<rparr>))
       filePath filePermissions (snd (time_Now (snd (time_Now w1))))"
  using assms
  by (auto simp add: AppendResult_def merge_spec_def Let_def split: prod.splits option.splits)

text \<open>
  C4, as the code has it. When \<open>LoadResults\<close> returns a report, \<open>AppendResult\<close> is the
  save of the merge of the given results into that report (the sequences concatenated,
  a given VPN or Ping record in place of the loaded one) with the time of the call as its
  timestamp.
\<close>

theorem AppendResult_composition:
  assumes "LoadResults filePath w = (Inr loaded, w1)"
  shows "AppendResult https speeds vpn ping filePath filePermissions w =
     SaveResults
       (Some ((merge_spec loaded https speeds vpn ping)\<lparr>Timestamp := fst (time_Now w1)\<rparr>))
       filePath filePermissions (snd (time_Now w1))"
  using assms
  by (auto simp add: AppendResult_def merge_spec_def Let_def split: prod.splits option.splits)

theorem AppendResult_composition_witness:
  "LoadResults ''data.json'' stamped_disk =
     (Inr (zero_TestResults\<lparr>Timestamp := unix_epoch\<rparr>), stamped_disk) \<and>
   AppendResult [google_ok] [] None None ''data.json'' FilePermissions stamped_disk =
     SaveResults
       (Some ((merge_spec (zero_TestResults\<lparr>Timestamp := unix_epoch\<rparr>)
                 [google_ok] [] None None)
                \<lparr>Timestamp := fst (time_Now stamped_disk)\<rparr>))
       ''data.json'' FilePermissions (snd (time_Now stamped_disk))"
proof -
  have a: "LoadResults ''data.json'' stamped_disk =
     (Inr (zero_TestResults\<lparr>Timestamp := unix_epoch\<rparr>), stamped_disk)"
    by (simp add: LoadResults_def stamped_disk_def empty_disk_def json_Unmarshal_def
        unmarshal_TestResults_def zero_TestResults_def)
  show ?thesis
    using a AppendResult_composition [OF a, of "[google_ok]" "[]" None None FilePermissions]
    by simp
qed

text \<open>
  C4, as stated, fails on the timestamp: on a file stamped with the Unix epoch, the
  composition of load, merge and save writes a report that keeps that timestamp, while
  \<open>AppendResult\<close> writes one stamped with the time of the call.
\<close>

theorem AppendResult_counterexample:
  "fst (AppendResult [google_ok] [] None None ''data.json'' FilePermissions stamped_disk) = None \<and>
   fst (append_spec [google_ok] [] None None ''data.json'' FilePermissions stamped_disk) = None \<and>
   map_option Timestamp
     (fst (snd (append_spec [google_ok] [] None None ''data.json'' FilePermissions stamped_disk))) =
     Some unix_epoch \<and>
   map_option Timestamp
     (fst (snd (AppendResult [google_ok] [] None None ''data.json'' FilePermissions stamped_disk))) =
     Some first_reading \<and>
   files (snd (snd (AppendResult [google_ok] [] None None ''data.json'' FilePermissions stamped_disk)))
     ''data.json'' \<noteq>
   files (snd (snd (append_spec [google_ok] [] None None ''data.json'' FilePermissions stamped_disk)))
     ''data.json''"
  by (simp add: AppendResult_def append_spec_def merge_spec_def stamped_disk_def eval_defs
      google_ok_def Let_def)

section \<open>The orchestrator\<close>

subsection \<open>The HTTP results of a pass\<close>

lemma TestHTTP_URL: "HTTP_URL (TestHTTP nw url cfg) = url"
  by (simp add: TestHTTP_def Let_def split: option.splits sum.splits)

lemma values_of_map_Some: "values_of (map (\<lambda>x. Some (f x)) xs) = map f xs"
  by (induction xs) simp_all

lemma http_targets_append: "http_targets (xs @ ys) = http_targets xs @ http_targets ys"
  by (induction xs rule: http_targets.induct) simp_all

lemma http_targets_launch: "http_targets (launch hs ss ps) = hs"
proof -
  have 1: "http_targets (map HTTPTask hs) = hs" by (induction hs) simp_all
  have 2: "http_targets (map SpeedTask ss) = []" by (induction ss) simp_all
  have 3: "http_targets (map PingTask ps) = []" by (induction ps) simp_all
  show ?thesis by (simp add: launch_def http_targets_append 1 2 3)
qed

lemma mset_http_targets:
  "mset (http_targets ts) =
     image_mset (\<lambda>t. case t of HTTPTask u \<Rightarrow> u | _ \<Rightarrow> [])
       (filter_mset (\<lambda>t. case t of HTTPTask u \<Rightarrow> True | _ \<Rightarrow> False) (mset ts))"
  by (induction ts rule: http_targets.induct) simp_all

lemma http_targets_order:
  assumes "mset order = mset (launch hs ss ps)"
  shows "mset (http_targets order) = mset hs"
proof -
  have "mset (http_targets order) = mset (http_targets (launch hs ss ps))"
    by (simp only: mset_http_targets assms)
  then show ?thesis by (simp add: http_targets_launch)
qed

lemma httpTests_foldl:
  "httpTests (foldl (complete nw cfg) c order) =
     httpTests c @ map (\<lambda>u. Some (TestHTTP nw u cfg)) (http_targets order)"
proof (induction order arbitrary: c)
  case Nil
  then show ?case by simp
next
  case (Cons t order)
  then show ?case by (cases t) (simp_all add: Let_def)
qed

lemma HTTPTests_aggregate: "HTTPTests (aggregate c) = values_of (httpTests c)"
  by (simp add: aggregate_def Let_def split: option.splits)

lemma HTTPTests_pass:
  "HTTPTests (aggregate (foldl (complete nw cfg) no_results order)) =
     map (\<lambda>u. TestHTTP nw u cfg) (http_targets order)"
  by (simp add: HTTPTests_aggregate httpTests_foldl values_of_map_Some no_results_def)

lemma slots_length:
  "length (foldl (\<lambda>tests index. tests[index := f index]) tests order) = length tests"
  by (induction order arbitrary: tests) simp_all

lemma slots_nth:
  "i < length tests \<Longrightarrow>
     foldl (\<lambda>tests index. tests[index := f index]) tests order ! i =
       (if i \<in> set order then f i else tests ! i)"
proof (induction order arbitrary: tests)
  case Nil
  then show ?case by simp
next
  case (Cons j order)
  then show ?case by (auto simp add: nth_list_update)
qed

lemma slots_filled:
  assumes "mset order = mset [0..<length urls]"
  shows "foldl (\<lambda>tests index. tests[index := Some (g (urls ! index))])
           (replicate (length urls) None) order = map (\<lambda>u. Some (g u)) urls"
proof (rule nth_equalityI)
  show "length (foldl (\<lambda>tests index. tests[index := Some (g (urls ! index))])
           (replicate (length urls) None) order) = length (map (\<lambda>u. Some (g u)) urls)"
    by (simp add: slots_length)
next
  fix i
  assume "i < length (foldl (\<lambda>tests index. tests[index := Some (g (urls ! index))])
           (replicate (length urls) None) order)"
  then have i: "i < length urls" by (simp add: slots_length)
  from assms have "set order = {0..<length urls}"
    by (metis mset_eq_setD set_upt)
  with i have "i \<in> set order" by simp
  with i show "foldl (\<lambda>tests index. tests[index := Some (g (urls ! index))])
           (replicate (length urls) None) order ! i = map (\<lambda>u. Some (g u)) urls ! i"
    by (simp add: slots_nth)
qed

lemma fan_in_http:
  assumes "mset order = mset (launch hs ss ps)" and "distinct hs"
  shows "mset (HTTPTests (aggregate (foldl (complete nw cfg) no_results order))) =
           mset (map (\<lambda>u. TestHTTP nw u cfg) hs) \<and>
         length (HTTPTests (aggregate (foldl (complete nw cfg) no_results order))) = length hs \<and>
         distinct (HTTPTests (aggregate (foldl (complete nw cfg) no_results order)))"
proof -
  let ?f = "\<lambda>u. TestHTTP nw u cfg"
  let ?rs = "map ?f (http_targets order)"
  have t: "mset (http_targets order) = mset hs"
    using assms(1) by (rule http_targets_order)
  have m: "mset ?rs = mset (map ?f hs)"
    using t by (metis mset_map)
  have l: "length ?rs = length hs"
    using t by (metis length_map size_mset)
  from t assms(2) have "distinct (http_targets order)"
    by (metis mset_eq_imp_distinct_iff)
  moreover have "inj_on ?f (set (http_targets order))"
    by (rule inj_on_inverseI [where g = HTTP_URL]) (simp add: TestHTTP_URL)
  ultimately have d: "distinct ?rs"
    by (simp add: distinct_map)
  from m l d show ?thesis
    by (simp add: HTTPTests_pass)
qed

text \<open>
  C1. Whatever the order in which the goroutines of a pass complete: for every list of
  distinct HTTP targets launched, the results collected under the mutex and copied into
  the report are exactly the results of \<open>TestHTTP\<close> on those targets, one for each and
  none twice, so as many as there are targets; this holds of the report of
  \<open>runAllTests\<close> for the targets it launches; and for every list of targets, the report
  of \<open>runHTTPTests\<close> holds the results of \<open>TestHTTP\<close> on them, one for each, in the
  order of the list.
\<close>

theorem one_result_per_target:
  assumes "mset order = mset (launch hs ss ps)" and "distinct hs"
    and "mset (completion runAllTests_tasks) = mset runAllTests_tasks"
    and "mset (writes [0..<length urls]) = mset [0..<length urls]"
  shows "(mset (HTTPTests (aggregate (foldl (complete nw cfg) no_results order))) =
            mset (map (\<lambda>u. TestHTTP nw u cfg) hs) \<and>
          length (HTTPTests (aggregate (foldl (complete nw cfg) no_results order))) = length hs \<and>
          distinct (HTTPTests (aggregate (foldl (complete nw cfg) no_results order)))) \<and>
         (\<exists>r. fst (snd (runAllTests nw cfg completion w)) = Some r \<and>
            mset (HTTPTests r) = mset (map (\<lambda>u. TestHTTP nw u cfg) httpURLs) \<and>
            length (HTTPTests r) = length httpURLs \<and> distinct (HTTPTests r)) \<and>
         (\<exists>r. fst (snd (runHTTPTests nw cfg urls writes w)) = Some r \<and>
            HTTPTests r = map (\<lambda>u. TestHTTP nw u cfg) urls \<and>
            length (HTTPTests r) = length urls)"
proof -
  let ?f = "\<lambda>u. TestHTTP nw u cfg"
  have g: "mset (HTTPTests (aggregate (foldl (complete nw cfg) no_results order))) =
            mset (map ?f hs) \<and>
          length (HTTPTests (aggregate (foldl (complete nw cfg) no_results order))) = length hs \<and>
          distinct (HTTPTests (aggregate (foldl (complete nw cfg) no_results order)))"
    using assms(1) assms(2) by (rule fan_in_http)
  have "distinct httpURLs"
    by (simp add: httpURLs_def)
  with assms(3) have
    "mset (HTTPTests (aggregate (foldl (complete nw cfg) no_results
        (completion runAllTests_tasks)))) = mset (map ?f httpURLs) \<and>
     length (HTTPTests (aggregate (foldl (complete nw cfg) no_results
        (completion runAllTests_tasks)))) = length httpURLs \<and>
     distinct (HTTPTests (aggregate (foldl (complete nw cfg) no_results
        (completion runAllTests_tasks))))"
    unfolding runAllTests_tasks_def by (rule fan_in_http)
  then have a: "\<exists>r. fst (snd (runAllTests nw cfg completion w)) = Some r \<and>
            mset (HTTPTests r) = mset (map ?f httpURLs) \<and>
            length (HTTPTests r) = length httpURLs \<and> distinct (HTTPTests r)"
    by (simp add: runAllTests_def Let_def SaveResults_report)
  have b: "\<exists>r. fst (snd (runHTTPTests nw cfg urls writes w)) = Some r \<and>
            HTTPTests r = map ?f urls \<and> length (HTTPTests r) = length urls"
    using slots_filled [OF assms(4), of ?f]
    by (simp add: runHTTPTests_def Let_def SaveResults_report values_of_map_Some)
  from g a b show ?thesis by blast
qed

theorem one_result_per_target_witness:
  "mset (rev (launch [''https://a.example/'', ''https://b.example/''] [] [])) =
     mset (launch [''https://a.example/'', ''https://b.example/''] [] []) \<and>
   distinct [''https://a.example/'', ''https://b.example/''] \<and>
   mset (rev runAllTests_tasks) = mset runAllTests_tasks \<and>
   mset (rev [0..<length [''https://a.example/'', ''https://b.example/'']]) =
     mset [0..<length [''https://a.example/'', ''https://b.example/'']] \<and>
   length (HTTPTests (aggregate (foldl (complete offline config_New) no_results
      (rev (launch [''https://a.example/'', ''https://b.example/''] [] []))))) =
     length [''https://a.example/'', ''https://b.example/''] \<and>
   (\<exists>r. fst (snd (runAllTests offline config_New rev empty_disk)) = Some r \<and>
      mset (HTTPTests r) = mset (map (\<lambda>u. TestHTTP offline u config_New) httpURLs) \<and>
      length (HTTPTests r) = length httpURLs \<and> distinct (HTTPTests r)) \<and>
   (\<exists>r. fst (snd (runHTTPTests offline config_New
              [''https://a.example/'', ''https://b.example/''] rev empty_disk)) = Some r \<and>
      HTTPTests r = map (\<lambda>u. TestHTTP offline u config_New)
        [''https://a.example/'', ''https://b.example/''] \<and>
      length (HTTPTests r) = length [''https://a.example/'', ''https://b.example/''])"
proof -
  have a: "mset (rev (launch [''https://a.example/'', ''https://b.example/''] [] [])) =
     mset (launch [''https://a.example/'', ''https://b.example/''] [] [])"
    by simp
  have d: "distinct [''https://a.example/'', ''https://b.example/'']"
    by simp
  have b: "mset (rev runAllTests_tasks) = mset runAllTests_tasks"
    by simp
  have c: "mset (rev [0..<length [''https://a.example/'', ''https://b.example/'']]) =
      mset [0..<length [''https://a.example/'', ''https://b.example/'']]"
    by simp
  show ?thesis
    using a d b c
      one_result_per_target [where order = "rev (launch
          [''https://a.example/'', ''https://b.example/''] [] [])"
        and hs = "[''https://a.example/'', ''https://b.example/'']" and ss = "[]" and ps = "[]"
        and completion = rev and writes = rev
        and urls = "[''https://a.example/'', ''https://b.example/'']"
        and nw = offline and cfg = config_New and w = empty_disk]
    by simp
qed

subsection \<open>The ping result of a pass\<close>

lemma pingTest_kept:
  "pingTest c \<noteq> None \<Longrightarrow> pingTest (foldl (complete nw cfg) c order) = pingTest c"
proof (induction order arbitrary: c)
  case Nil
  then show ?case by simp
next
  case (Cons t order)
  then show ?case by (cases t) (simp_all add: Let_def)
qed

lemma pingTest_untouched:
  "\<forall>t\<in>set order. \<not> is_ping t \<Longrightarrow> pingTest (foldl (complete nw cfg) c order) = pingTest c"
proof (induction order arbitrary: c)
  case Nil
  then show ?case by simp
next
  case (Cons t order)
  then show ?case by (cases t) (simp_all add: Let_def)
qed

lemma PingTest_aggregate:
  "pingTest c = Some p \<Longrightarrow> PingTest (aggregate c) = p"
  by (simp add: aggregate_def Let_def split: option.splits)

lemma first_ping_stored:
  assumes "\<forall>t\<in>set pre. \<not> is_ping t"
  shows "pingTest (foldl (complete nw cfg) no_results (pre @ PingTask d # post)) =
     Some (PingCheck nw d cfg)"
proof -
  have "pingTest (foldl (complete nw cfg) no_results pre) = None"
    using assms by (simp add: pingTest_untouched no_results_def)
  then have "pingTest (complete nw cfg (foldl (complete nw cfg) no_results pre) (PingTask d)) =
      Some (PingCheck nw d cfg)"
    by (simp add: Let_def)
  then show ?thesis
    by (simp add: pingTest_kept)
qed

lemma ping_in_launch: "PingTask d \<in> set (launch hs ss ps) \<longleftrightarrow> d \<in> set ps"
  by (auto simp add: launch_def)

text \<open>
  C10. \<open>runAllTests\<close> launches a ping task for each of its ping domains, and its report
  holds one Ping result: that of the ping task that completes first. It is stored when
  that task completes, and the results of the ping tasks that complete later are dropped.
\<close>

theorem first_ping_wins:
  assumes "mset (completion runAllTests_tasks) = mset runAllTests_tasks"
  shows "\<exists>pre d post r. completion runAllTests_tasks = pre @ PingTask d # post \<and>
     (\<forall>t\<in>set pre. \<not> is_ping t) \<and> d \<in> set pingDomains \<and>
     pingTest (foldl (complete nw cfg) no_results (pre @ [PingTask d])) =
       Some (PingCheck nw d cfg) \<and>
     fst (snd (runAllTests nw cfg completion w)) = Some r \<and> PingTest r = PingCheck nw d cfg"
proof -
  let ?order = "completion runAllTests_tasks"
  from assms have s: "set ?order = set (launch httpURLs speedURLs pingDomains)"
    unfolding runAllTests_tasks_def by (rule mset_eq_setD)
  have "PingTask ''www.google.com'' \<in> set ?order"
    by (simp add: s ping_in_launch pingDomains_def)
  then have "\<exists>t\<in>set ?order. is_ping t"
    by (rule bexI [rotated]) simp
  then obtain pre t post where
    o: "?order = pre @ t # post" and t: "is_ping t" and pre: "\<forall>x\<in>set pre. \<not> is_ping x"
    by (auto simp add: split_list_first_prop_iff)
  from t obtain d where d: "t = PingTask d"
    by (cases t) simp_all
  have "PingTask d \<in> set ?order"
    by (simp add: o d)
  then have m: "d \<in> set pingDomains"
    by (simp add: s ping_in_launch)
  have 1: "pingTest (foldl (complete nw cfg) no_results (pre @ [PingTask d])) =
      Some (PingCheck nw d cfg)"
    using pre by (rule first_ping_stored)
  have "pingTest (foldl (complete nw cfg) no_results ?order) = Some (PingCheck nw d cfg)"
    unfolding o d using pre by (rule first_ping_stored)
  then have "PingTest (aggregate (foldl (complete nw cfg) no_results ?order)) = PingCheck nw d cfg"
    by (rule PingTest_aggregate)
  then have 2: "\<exists>r. fst (snd (runAllTests nw cfg completion w)) = Some r \<and>
      PingTest r = PingCheck nw d cfg"
    by (simp add: runAllTests_def Let_def SaveResults_report)
  from o d pre m 1 2 show ?thesis by blast
qed

theorem first_ping_wins_witness:
  "mset (rev runAllTests_tasks) = mset runAllTests_tasks \<and>
   (\<exists>pre d post r. rev runAllTests_tasks = pre @ PingTask d # post \<and>
     (\<forall>t\<in>set pre. \<not> is_ping t) \<and> d \<in> set pingDomains \<and>
     pingTest (foldl (complete lossy_echo config_New) no_results (pre @ [PingTask d])) =
       Some (PingCheck lossy_echo d config_New) \<and>
     fst (snd (runAllTests lossy_echo config_New rev empty_disk)) = Some r \<and>
     PingTest r = PingCheck lossy_echo d config_New)"
proof -
  have a: "mset (rev runAllTests_tasks) = mset runAllTests_tasks"
    by simp
  show ?thesis
    using a
      first_ping_wins [where completion = rev and nw = lossy_echo and cfg = config_New
        and w = empty_disk]
    by simp
qed

section \<open>The ping probe\<close>

lemma handle_bound:
  assumes "Ping_Received result \<le> Ping_Transmitted result"
    and "\<forall>stats. OnFinish stats \<in> set events \<longrightarrow> PacketsRecv stats \<le> PacketsSent stats"
  shows "Ping_Received (foldl handle result events) \<le> Ping_Transmitted (foldl handle result events)"
  using assms
proof (induction events arbitrary: result)
  case Nil
  then show ?case by simp
next
  case (Cons e events)
  have "Ping_Received (handle result e) \<le> Ping_Transmitted (handle result e)"
    using Cons.prems by (cases e) simp_all
  moreover have "\<forall>stats. OnFinish stats \<in> set events \<longrightarrow> PacketsRecv stats \<le> PacketsSent stats"
    using Cons.prems(2) by simp
  ultimately show ?case
    using Cons.IH by simp
qed

lemma step_in_flight:
  assumes "received s + int (length (in_flight s)) \<le> transmitted s"
  shows "received (fst (step Count s x)) + int (length (in_flight (fst (step Count s x))))
     \<le> transmitted (fst (step Count s x))"
proof (cases x)
  case Echo
  with assms show ?thesis by simp
next
  case (Reply nbytes n)
  show ?thesis
  proof (cases "n \<in> set (in_flight s)")
    case True
    then have "length (removeAll n (in_flight s)) < length (in_flight s)"
      by (rule length_removeAll_less)
    with assms True Reply show ?thesis by simp
  next
    case False
    with assms Reply show ?thesis by simp
  qed
qed

lemma session_run_finish:
  "received s + int (length (in_flight s)) \<le> transmitted s \<Longrightarrow>
   OnFinish stats \<in> set (session_run Count s xs) \<Longrightarrow> PacketsRecv stats \<le> PacketsSent stats"
proof (induction xs arbitrary: s)
  case Nil
  then show ?case by (auto simp add: statistics_def)
next
  case (Cons x xs)
  obtain s' out where st: "step Count s x = (s', out)"
    by (cases "step Count s x")
  have inv: "received s' + int (length (in_flight s')) \<le> transmitted s'"
    using step_in_flight [OF Cons.prems(1), of Count x] st by simp
  have out: "OnFinish stats \<notin> set out"
    using st by (cases x) (auto split: if_splits)
  show ?case
  proof (cases "0 < Count \<and> Count \<le> received s'")
    case True
    with Cons.prems(2) st out have "stats = statistics s'"
      by auto
    with inv show ?thesis by (simp add: statistics_def)
  next
    case False
    with Cons.prems(2) st out have "OnFinish stats \<in> set (session_run Count s' xs)"
      by auto
    with inv show ?thesis by (rule Cons.IH)
  qed
qed

lemma library_Run_finish:
  "OnFinish stats \<in> set (fst (library_Run pn Count)) \<Longrightarrow> PacketsRecv stats \<le> PacketsSent stats"
proof (cases pn)
  case (ListenFails e)
  assume "OnFinish stats \<in> set (fst (library_Run pn Count))"
  with ListenFails show ?thesis by (simp add: library_Run_def)
next
  case (Echoes wires ret)
  assume "OnFinish stats \<in> set (fst (library_Run pn Count))"
  with Echoes have "OnFinish stats \<in> set (session_run Count new_session wires)"
    by (simp add: library_Run_def)
  moreover have "received new_session + int (length (in_flight new_session))
      \<le> transmitted new_session"
    by (simp add: new_session_def)
  ultimately show ?thesis by (rule session_run_finish [rotated])
qed

lemma duplicate_step:
  "n \<notin> set (in_flight (fst (step Count s (Reply nbytes n))))"
  by simp

lemma repeated_reply:
  "foldl handle result (session_run Count s (pre @ Reply b n # Reply b' n # post)) =
   foldl handle result (session_run Count s (pre @ Reply b n # post))"
proof (induction pre arbitrary: s result)
  case Nil
  obtain s1 out1 where st: "step Count s (Reply b n) = (s1, out1)"
    by (cases "step Count s (Reply b n)")
  have "n \<notin> set (in_flight s1)"
    using duplicate_step [of n Count s b] st by simp
  then have d: "step Count s1 (Reply b' n) = (s1, [OnDuplicateRecv \<lparr>Nbytes = b', Seq = int n\<rparr>])"
    by simp
  show ?case
    by (auto simp add: st d)
next
  case (Cons x pre)
  obtain s' out where st: "step Count s x = (s', out)"
    by (cases "step Count s x")
  show ?case
    using Cons.IH [of "foldl handle result out" s'] by (simp add: st)
qed

text \<open>
  C6. When the session of the ping library raises a duplicate-receive event, the session,
  and so its received counter, is as it was, and the handler of \<open>PingCheck\<close> leaves the
  result record as it was; an echo reply that arrives a second time changes nothing in
  the final result. Whatever reaches the session, the result that \<open>PingCheck\<close> returns
  has received at most transmitted.
\<close>

theorem ping_counters:
  "(snd (step Count s (Reply b n)) = [OnDuplicateRecv pkt] \<longrightarrow>
      fst (step Count s (Reply b n)) = s) \<and>
   handle result (OnDuplicateRecv pkt) = result \<and>
   foldl handle result (session_run Count s (pre @ Reply b n # Reply b' n # post)) =
     foldl handle result (session_run Count s (pre @ Reply b n # post)) \<and>
   Ping_Received
     (PingCheck (nw\<lparr>pinger_Run := (\<lambda>domain Count. library_Run (reaches domain) Count)\<rparr>)
        domain cfg)
     \<le> Ping_Transmitted
         (PingCheck (nw\<lparr>pinger_Run := (\<lambda>domain Count. library_Run (reaches domain) Count)\<rparr>)
            domain cfg)"
proof -
  let ?nw = "nw\<lparr>pinger_Run := (\<lambda>domain Count. library_Run (reaches domain) Count)\<rparr>"
  let ?r0 = "zero_PingTest\<lparr>Ping_URL := domain\<rparr>"
  let ?events = "fst (library_Run (reaches domain) (PingCount cfg))"
  have z: "Ping_Received ?r0 \<le> Ping_Transmitted ?r0"
    by (simp add: zero_PingTest_def)
  have "\<forall>stats. OnFinish stats \<in> set ?events \<longrightarrow> PacketsRecv stats \<le> PacketsSent stats"
    using library_Run_finish by blast
  with z have "Ping_Received (foldl handle ?r0 ?events) \<le> Ping_Transmitted (foldl handle ?r0 ?events)"
    by (rule handle_bound)
  then have 1: "Ping_Received (PingCheck ?nw domain cfg) \<le> Ping_Transmitted (PingCheck ?nw domain cfg)"
    using z by (auto simp add: PingCheck_def Let_def split: option.splits prod.splits)
  have 2: "snd (step Count s (Reply b n)) = [OnDuplicateRecv pkt] \<longrightarrow>
      fst (step Count s (Reply b n)) = s"
    by simp
  from 1 2 show ?thesis
    by (simp add: repeated_reply)
qed

theorem ping_counters_witness:
  "step 5 \<lparr>transmitted = 2, received = 2, in_flight = [], next_seq = 2\<rparr> (Reply 32 1) =
     (\<lparr>transmitted = 2, received = 2, in_flight = [], next_seq = 2\<rparr>,
      [OnDuplicateRecv \<lparr>Nbytes = 32, Seq = 1\<rparr>]) \<and>
   PingCheck (offline\<lparr>ping_NewPinger := (\<lambda>domain. None),
       pinger_Run := (\<lambda>domain Count. library_Run three_of_five Count)\<rparr>)
     ''www.google.com'' config_New =
     \<lparr>Ping_URL = ''www.google.com'', Ping_Transmitted = 5, Ping_Received = 3,
      Ping_Loss = Finite 40, Ping_Error = []\<rparr> \<and>
   Ping_Received (PingCheck (offline\<lparr>ping_NewPinger := (\<lambda>domain. None),
       pinger_Run := (\<lambda>domain Count. library_Run three_of_five Count)\<rparr>)
     ''www.google.com'' config_New)
   \<le> Ping_Transmitted (PingCheck (offline\<lparr>ping_NewPinger := (\<lambda>domain. None),
       pinger_Run := (\<lambda>domain Count. library_Run three_of_five Count)\<rparr>)
     ''www.google.com'' config_New)"
proof -
  have d: "step 5 \<lparr>transmitted = 2, received = 2, in_flight = [], next_seq = 2\<rparr> (Reply 32 1) =
     (\<lparr>transmitted = 2, received = 2, in_flight = [], next_seq = 2\<rparr>,
      [OnDuplicateRecv \<lparr>Nbytes = 32, Seq = 1\<rparr>])"
    by simp
  have v: "PingCheck (offline\<lparr>ping_NewPinger := (\<lambda>domain. None),
       pinger_Run := (\<lambda>domain Count. library_Run three_of_five Count)\<rparr>)
     ''www.google.com'' config_New =
     \<lparr>Ping_URL = ''www.google.com'', Ping_Transmitted = 5, Ping_Received = 3,
      Ping_Loss = Finite 40, Ping_Error = []\<rparr>"
    by (simp add: PingCheck_def offline_def config_New_def DefaultPingCount_def
        zero_PingTest_def library_Run_def three_of_five_def new_session_def statistics_def
        lossPercent_def)
  show ?thesis
    using d v ping_counters [where nw = "offline\<lparr>ping_NewPinger := (\<lambda>domain. None)\<rparr>"
        and reaches = "\<lambda>domain. three_of_five" and domain = "''www.google.com''"
        and cfg = config_New]
    by simp
qed

lemma no_finish_unchanged:
  "\<forall>stats. OnFinish stats \<notin> set events \<Longrightarrow> foldl handle result events = result"
proof (induction events arbitrary: result)
  case Nil
  then show ?case by simp
next
  case (Cons e events)
  then show ?case by (cases e) auto
qed

text \<open>
  C7, as the code has it. When the pinger cannot be constructed, \<open>PingCheck\<close> returns the
  domain, the error, and statistics at their zero values. When \<open>Run\<close> returns an error,
  \<open>PingCheck\<close> returns the domain, the error, and what the handlers stored before \<open>Run\<close>
  returned: statistics at their zero values if \<open>OnFinish\<close> was not called.
\<close>

theorem PingCheck_failures:
  "(\<forall>err. ping_NewPinger nw domain = Some err \<longrightarrow>
      PingCheck nw domain cfg = zero_PingTest\<lparr>Ping_URL := domain, Ping_Error := err\<rparr>) \<and>
   (\<forall>events err.
      ping_NewPinger nw domain = None \<and> pinger_Run nw domain (PingCount cfg) = (events, Some err) \<longrightarrow>
      PingCheck nw domain cfg =
        (foldl handle (zero_PingTest\<lparr>Ping_URL := domain\<rparr>) events)\<lparr>Ping_Error := err\<rparr> \<and>
      ((\<forall>stats. OnFinish stats \<notin> set events) \<longrightarrow>
         PingCheck nw domain cfg = zero_PingTest\<lparr>Ping_URL := domain, Ping_Error := err\<rparr>))"
  by (auto simp add: PingCheck_def Let_def no_finish_unchanged)

theorem PingCheck_failures_witness:
  "(ping_NewPinger offline ''no.such.host'' = Some ''lookup: no such host'' \<and>
    PingCheck offline ''no.such.host'' config_New =
      zero_PingTest\<lparr>Ping_URL := ''no.such.host'', Ping_Error := ''lookup: no such host''\<rparr>) \<and>
   (ping_NewPinger no_socket ''www.google.com'' = None \<and>
    pinger_Run no_socket ''www.google.com'' (PingCount config_New) =
      ([], Some ''listen ip4:icmp 0.0.0.0: socket: operation not permitted'') \<and>
    PingCheck no_socket ''www.google.com'' config_New =
      zero_PingTest\<lparr>Ping_URL := ''www.google.com'',
        Ping_Error := ''listen ip4:icmp 0.0.0.0: socket: operation not permitted''\<rparr>)"
proof -
  have a: "ping_NewPinger offline ''no.such.host'' = Some ''lookup: no such host''"
    by (simp add: offline_def)
  have b: "ping_NewPinger no_socket ''www.google.com'' = None \<and>
    pinger_Run no_socket ''www.google.com'' (PingCount config_New) =
      ([], Some ''listen ip4:icmp 0.0.0.0: socket: operation not permitted'')"
    by (simp add: no_socket_def offline_def)
  show ?thesis
    using a b PingCheck_failures [of offline "''no.such.host''" config_New]
      PingCheck_failures [of no_socket "''www.google.com''" config_New]
    by simp
qed

text \<open>
  C7, as stated, fails for a failure during the echo sequence: \<open>Run\<close> calls \<open>OnFinish\<close>
  with two packets sent and one received and then returns an error, and the result has
  the error and those statistics.
\<close>

theorem PingCheck_failures_counterexample:
  "ping_NewPinger broken_echo ''www.google.com'' = None \<and>
   snd (pinger_Run broken_echo ''www.google.com'' (PingCount config_New)) =
     Some ''read ip4 0.0.0.0: i/o timeout'' \<and>
   PingCheck broken_echo ''www.google.com'' config_New =
     \<lparr>Ping_URL = ''www.google.com'', Ping_Transmitted = 2, Ping_Received = 1,
      Ping_Loss = Finite 50, Ping_Error = ''read ip4 0.0.0.0: i/o timeout''\<rparr> \<and>
   Ping_Transmitted (PingCheck broken_echo ''www.google.com'' config_New) \<noteq> 0 \<and>
   Ping_Received (PingCheck broken_echo ''www.google.com'' config_New) \<noteq> 0 \<and>
   Ping_Loss (PingCheck broken_echo ''www.google.com'' config_New) \<noteq> Finite 0"
  by (simp add: PingCheck_def broken_echo_def offline_def config_New_def zero_PingTest_def)

end
